theory Spec2Isabelle
  imports Main
begin

section \<open>Self-registration property mapping\<close>

text \<open>
  A configuration property of the remote API, as the component reads it: an object
  with a \<open>name\<close> and a \<open>value\<close>. The record is used through its scheme, so any
  further field an object carries is kept along unchanged.
\<close>

record property =
  name :: string
  "value" :: string

text \<open>The response of \<open>getSelfSignUpConfigurations\<close>: an object with a \<open>properties\<close> array.\<close>

record 'a response =
  properties :: "'a property_scheme list"

text \<open>
  The state object \<open>selfSignUpConfigs\<close> as the load handler builds it: the array of
  checked keys and the three scalar fields. (Its interface
  \<open>SelfSignUpConfigurationsInterface\<close> is declared outside the component.)
\<close>

record configs =
  checkboxValues :: "string list"
  verificationCodeExpiryTime :: string
  smsOTPExpiryTime :: string
  callbackRegex :: string

text \<open>The body of the PATCH request.\<close>

record patch_data =
  operation :: string
  patch_properties :: "property list"

text \<open>
  Failures: \<open>TypeError\<close> is what the JavaScript runtime throws when a property is read
  from \<open>undefined\<close>; it carries no key and no category id. \<open>MissingPropertyError\<close> and
  \<open>UnknownCategoryError\<close> are the error kinds the specification names; no path of the
  source constructs them.
\<close>

datatype error = TypeError | MissingPropertyError string | UnknownCategoryError string

subsection \<open>Self registration API key constants\<close>

definition SELF_REGISTRATION_ENABLE :: string where
  "SELF_REGISTRATION_ENABLE = ''SelfRegistration.Enable''"

definition ACCOUNT_LOCK_ON_CREATION :: string where
  "ACCOUNT_LOCK_ON_CREATION = ''SelfRegistration.LockOnCreation''"

definition NOTIFICATION_INTERNALLY_MANAGED :: string where
  "NOTIFICATION_INTERNALLY_MANAGED = ''SelfRegistration.Notification.InternallyManage''"

definition RE_CAPTCHA :: string where
  "RE_CAPTCHA = ''SelfRegistration.ReCaptcha''"

definition VERIFICATION_CODE_EXPIRY_TIME :: string where
  "VERIFICATION_CODE_EXPIRY_TIME = ''SelfRegistration.VerificationCode.ExpiryTime''"

definition SMS_OTP_EXPIRY_TIME :: string where
  "SMS_OTP_EXPIRY_TIME = ''SelfRegistration.VerificationCode.SMSOTP.ExpiryTime''"

definition CALLBACK_REGEX :: string where
  "CALLBACK_REGEX = ''SelfRegistration.CallbackRegex''"

subsection \<open>getSelfRegistrationCheckboxValues\<close>

text \<open>
  \<open>values.push(k)\<close> appends to the end of the array. The callback of
  \<open>data.properties.map\<close> runs its four \<open>if\<close> statements one after the other on every
  property, in the order of the array.
\<close>

definition push :: "'a list \<Rightarrow> 'a \<Rightarrow> 'a list" where
  "push xs x = xs @ [x]"

definition checkboxCallback :: "'a property_scheme \<Rightarrow> string list \<Rightarrow> string list" where
  "checkboxCallback p values0 =
     (let values1 =
            (if name p = SELF_REGISTRATION_ENABLE
             then (if value p = ''true'' then push values0 SELF_REGISTRATION_ENABLE else values0)
             else values0);
          values2 =
            (if name p = ACCOUNT_LOCK_ON_CREATION
             then (if value p = ''true'' then push values1 ACCOUNT_LOCK_ON_CREATION else values1)
             else values1);
          values3 =
            (if name p = NOTIFICATION_INTERNALLY_MANAGED
             then (if value p = ''true'' then push values2 NOTIFICATION_INTERNALLY_MANAGED
                   else values2)
             else values2);
          values4 =
            (if name p = RE_CAPTCHA
             then (if value p = ''true'' then push values3 RE_CAPTCHA else values3)
             else values3)
      in values4)"

definition getSelfRegistrationCheckboxValues :: "('a, 'b) response_scheme \<Rightarrow> string list"
  where
  "getSelfRegistrationCheckboxValues data = fold checkboxCallback (properties data) []"

subsection \<open>The load handler (the specification's toViewModel)\<close>

text \<open>
  \<open>response.properties.find(p => p.name == K).value\<close>: \<open>find\<close> gives the first match
  or \<open>undefined\<close>, and reading \<open>.value\<close> of \<open>undefined\<close> throws.
\<close>

definition findValue :: "string \<Rightarrow> 'a property_scheme list \<Rightarrow> error + string" where
  "findValue k ps =
     (case find (\<lambda>property. name property = k) ps of
        None \<Rightarrow> Inl TypeError
      | Some property \<Rightarrow> Inr (value property))"

definition toViewModel :: "('a, 'b) response_scheme \<Rightarrow> error + configs" where
  "toViewModel response =
     (let checkboxValues = getSelfRegistrationCheckboxValues response in
      case findValue VERIFICATION_CODE_EXPIRY_TIME (properties response) of
        Inl e \<Rightarrow> Inl e
      | Inr v \<Rightarrow>
          (case findValue SMS_OTP_EXPIRY_TIME (properties response) of
             Inl e \<Rightarrow> Inl e
           | Inr s \<Rightarrow>
               (case findValue CALLBACK_REGEX (properties response) of
                  Inl e \<Rightarrow> Inl e
                | Inr c \<Rightarrow>
                    Inr \<lparr>checkboxValues = checkboxValues,
                         verificationCodeExpiryTime = v,
                         smsOTPExpiryTime = s,
                         callbackRegex = c\<rparr>)))"

subsection \<open>getSelfSignUpPatchCallData (the specification's toUpdateRequest)\<close>

text \<open>\<open>xs.includes(k) ? "true" : "false"\<close>\<close>

definition array_includes :: "'a list \<Rightarrow> 'a \<Rightarrow> bool" where
  "array_includes xs x = (x \<in> set xs)"

definition boolString :: "bool \<Rightarrow> string" where
  "boolString b = (if b then ''true'' else ''false'')"

definition getSelfSignUpPatchCallData :: "configs \<Rightarrow> patch_data" where
  "getSelfSignUpPatchCallData selfSignUpConfigs =
     \<lparr>operation = ''UPDATE'',
      patch_properties =
        [\<lparr>name = SELF_REGISTRATION_ENABLE,
          value = boolString (array_includes (checkboxValues selfSignUpConfigs)
                    SELF_REGISTRATION_ENABLE)\<rparr>,
         \<lparr>name = ACCOUNT_LOCK_ON_CREATION,
          value = boolString (array_includes (checkboxValues selfSignUpConfigs)
                    ACCOUNT_LOCK_ON_CREATION)\<rparr>,
         \<lparr>name = NOTIFICATION_INTERNALLY_MANAGED,
          value = boolString (array_includes (checkboxValues selfSignUpConfigs)
                    NOTIFICATION_INTERNALLY_MANAGED)\<rparr>,
         \<lparr>name = RE_CAPTCHA,
          value = boolString (array_includes (checkboxValues selfSignUpConfigs) RE_CAPTCHA)\<rparr>,
         \<lparr>name = VERIFICATION_CODE_EXPIRY_TIME,
          value = verificationCodeExpiryTime selfSignUpConfigs\<rparr>,
         \<lparr>name = SMS_OTP_EXPIRY_TIME,
          value = smsOTPExpiryTime selfSignUpConfigs\<rparr>,
         \<lparr>name = CALLBACK_REGEX,
          value = callbackRegex selfSignUpConfigs\<rparr>]\<rparr>"

subsection \<open>The declared keys, and notions the properties are stated with\<close>

text \<open>
  The four keys of the checkboxes and the three keys of the scalar fields, in the order
  in which \<open>getSelfSignUpPatchCallData\<close> lists them.
\<close>

definition flagKeys :: "string list" where
  "flagKeys = [SELF_REGISTRATION_ENABLE, ACCOUNT_LOCK_ON_CREATION,
               NOTIFICATION_INTERNALLY_MANAGED, RE_CAPTCHA]"

definition scalarKeys :: "string list" where
  "scalarKeys = [VERIFICATION_CODE_EXPIRY_TIME, SMS_OTP_EXPIRY_TIME, CALLBACK_REGEX]"

text \<open>A property that switches a flag on: one of the flag keys, with the value \<open>"true"\<close>.\<close>

definition isTrueFlag :: "'a property_scheme \<Rightarrow> bool" where
  "isTrueFlag p = (name p \<in> set flagKeys \<and> value p = ''true'')"

text \<open>Index \<open>i\<close> is the first position of \<open>ps\<close> whose property has the name \<open>k\<close>.\<close>

definition firstNamed :: "string \<Rightarrow> 'a property_scheme list \<Rightarrow> nat \<Rightarrow> bool" where
  "firstNamed k ps i =
     (i < length ps \<and> name (ps ! i) = k \<and> list_all (\<lambda>p. name p \<noteq> k) (take i ps))"

text \<open>The example input of the specification.\<close>

definition specExample :: "unit response" where
  "specExample = \<lparr>properties =
     [\<lparr>name = ''SelfRegistration.Enable'', value = ''true''\<rparr>,
      \<lparr>name = ''SelfRegistration.LockOnCreation'', value = ''false''\<rparr>,
      \<lparr>name = ''SelfRegistration.VerificationCode.ExpiryTime'', value = ''1440''\<rparr>,
      \<lparr>name = ''SelfRegistration.VerificationCode.SMSOTP.ExpiryTime'', value = ''1''\<rparr>,
      \<lparr>name = ''SelfRegistration.CallbackRegex'', value = ''.*''\<rparr>]\<rparr>"

text \<open>An input in which flag keys come in another order than declared, one of them twice,
  next to a key that is no flag and a flag whose value is not the literal \<open>"true"\<close>.\<close>

definition repeatedFlags :: "unit response" where
  "repeatedFlags = \<lparr>properties =
     [\<lparr>name = ''SelfRegistration.ReCaptcha'', value = ''true''\<rparr>,
      \<lparr>name = ''SelfRegistration.CallbackRegex'', value = ''.*''\<rparr>,
      \<lparr>name = ''SelfRegistration.Enable'', value = ''true''\<rparr>,
      \<lparr>name = ''SelfRegistration.LockOnCreation'', value = ''TRUE''\<rparr>,
      \<lparr>name = ''SelfRegistration.VerificationCode.ExpiryTime'', value = ''1440''\<rparr>,
      \<lparr>name = ''SelfRegistration.ReCaptcha'', value = ''true''\<rparr>,
      \<lparr>name = ''SelfRegistration.VerificationCode.SMSOTP.ExpiryTime'', value = ''1''\<rparr>]\<rparr>"

text \<open>The entry the patch data holds for a flag key.\<close>

definition flagEntry :: "bool \<Rightarrow> string \<Rightarrow> property" where
  "flagEntry b k = \<lparr>name = k, value = boolString b\<rparr>"

text \<open>A property list without the CallbackRegex key.\<close>

definition noCallbackRegex :: "unit response" where
  "noCallbackRegex = \<lparr>properties =
     [\<lparr>name = ''SelfRegistration.Enable'', value = ''true''\<rparr>,
      \<lparr>name = ''SelfRegistration.VerificationCode.ExpiryTime'', value = ''1440''\<rparr>,
      \<lparr>name = ''SelfRegistration.VerificationCode.SMSOTP.ExpiryTime'', value = ''1''\<rparr>]\<rparr>"

section \<open>GovernanceConnectorUtils\<close>

subsection \<open>encodeConnectorPropertyName and decodeConnectorPropertyName\<close>

text \<open>
  \<open>s.split(sep)\<close> for a separator of one character: the pieces between the
  occurrences of the separator, so one piece more than there are occurrences (the empty
  string splits into one empty piece). \<open>xs.join(sep)\<close> concatenates with the separator
  between neighbours.
\<close>

fun split :: "char \<Rightarrow> string \<Rightarrow> string list" where
  "split sep [] = [[]]"
| "split sep (c # cs) =
     (if c = sep then [] # split sep cs
      else (case split sep cs of
              [] \<Rightarrow> [[c]]
            | piece # pieces \<Rightarrow> (c # piece) # pieces))"

fun join :: "string \<Rightarrow> string list \<Rightarrow> string" where
  "join sep [] = []"
| "join sep [x] = x"
| "join sep (x # y # ys) = x @ sep @ join sep (y # ys)"

definition encodeConnectorPropertyName :: "string \<Rightarrow> string" where
  "encodeConnectorPropertyName name' = join ''-'' (split (CHR ''.'') name')"

text \<open>
  \<open>name?.split("-").join(".")\<close>: the optional chain gives \<open>undefined\<close> (here \<open>None\<close>)
  when the argument is \<open>null\<close> or \<open>undefined\<close>.
\<close>

definition decodeConnectorPropertyName :: "string option \<Rightarrow> string option" where
  "decodeConnectorPropertyName name' =
     (case name' of
        None \<Rightarrow> None
      | Some n \<Rightarrow> Some (join ''.'' (split (CHR ''-'') n)))"

subsection \<open>SHOW_GOVERNANCE_CONNECTORS_FOR_SUBORGS\<close>

text \<open>\<open>GovernanceConnectorForOrgsInterface\<close> and \<open>GovernanceCategoryForOrgsInterface\<close>,
  with the fields the table gives them.\<close>

record connectorForOrgs =
  friendlyName :: string
  org_connector_id :: string
  org_connector_name :: string
  org_properties :: "string list"

record categoryForOrgs =
  connectors :: "connectorForOrgs list"
  category_id :: string
  category_name :: string

definition SHOW_GOVERNANCE_CONNECTORS_FOR_SUBORGS :: "categoryForOrgs list" where
  "SHOW_GOVERNANCE_CONNECTORS_FOR_SUBORGS =
     [\<lparr>connectors =
         [\<lparr>friendlyName = ''Account Recovery'',
           org_connector_id = ''YWNjb3VudC1yZWNvdmVyeQ'',
           org_connector_name = ''account-recovery'',
           org_properties = [''Recovery.Notification.Password.Enable'']\<rparr>],
       category_id = ''QWNjb3VudCBNYW5hZ2VtZW50'',
       category_name = ''Account Management''\<rparr>,
      \<lparr>connectors =
         [\<lparr>friendlyName = ''Ask Password'',
           org_connector_id = ''dXNlci1lbWFpbC12ZXJpZmljYXRpb24'',
           org_connector_name = ''user-email-verification'',
           org_properties =
             [''EmailVerification.Enable'',
              ''EmailVerification.LockOnCreation'',
              ''EmailVerification.Notification.InternallyManage'',
              ''EmailVerification.ExpiryTime'',
              ''EmailVerification.AskPassword.ExpiryTime'',
              ''EmailVerification.AskPassword.PasswordGenerator'',
              ''_url_listPurposeJITProvisioning'']\<rparr>],
       category_id = ''VXNlciBPbmJvYXJkaW5n'',
       category_name = ''User Onboarding''\<rparr>]"

subsection \<open>filterGovernanceConnectorCategories\<close>

text \<open>
  A connector of the remote API (\<open>GovernanceConnectorInterface\<close>), with the two fields
  the filter reads: its \<open>id\<close> and its \<open>properties\<close>. Any other field lives in the
  record's extension.

  The filter assigns to \<open>connector.properties\<close> of the objects of its input array, so
  connectors are objects in a store: a reference is an address, the store gives the
  object at each address (every reference holds a connector: a JavaScript reference
  never dangles), and an array of connectors is a list of references. The arrays
  themselves are never written (\<open>filter\<close> builds a new array), so they are values.
\<close>

record ('p, 'c) connector =
  connector_id :: string
  connector_properties :: "'p property_scheme list"
  connector_rest :: 'c

type_synonym ref = nat

type_synonym ('p, 'c) store = "ref \<Rightarrow> ('p, 'c) connector"

text \<open>\<open>xs.filter(pred)[0].field\<close>: the first match, and a \<open>TypeError\<close> when there is none
  (\<open>[0]\<close> is then \<open>undefined\<close>).\<close>

definition firstMatch :: "('a \<Rightarrow> bool) \<Rightarrow> 'a list \<Rightarrow> error + 'a" where
  "firstMatch pred xs =
     (case filter pred xs of
        [] \<Rightarrow> Inl TypeError
      | x # _ \<Rightarrow> Inr x)"

definition getGovernanceConnectorsProperties ::
  "connectorForOrgs list \<Rightarrow> string \<Rightarrow> error + string list" where
  "getGovernanceConnectorsProperties showGovernanceConnectors governanceConnectorId =
     (case firstMatch (\<lambda>connector. org_connector_id connector = governanceConnectorId)
             showGovernanceConnectors of
        Inl e \<Rightarrow> Inl e
      | Inr connector \<Rightarrow> Inr (org_properties connector))"

text \<open>
  The callback of \<open>governanceConnectors.filter\<close>, on the connector at reference \<open>r\<close>:
  whether the connector is kept (the callback returns the connector, which is truthy, or
  nothing), and the store after the assignment to \<open>connector.properties\<close>.
\<close>

definition filterCallback ::
  "connectorForOrgs list \<Rightarrow> string list \<Rightarrow> ref \<Rightarrow> ('p, 'c) store
     \<Rightarrow> error + (bool \<times> ('p, 'c) store)" where
  "filterCallback showGovernanceConnectors showGovernanceConnectorsIdOfSuborgs r h =
     (let connector = h r in
      if array_includes showGovernanceConnectorsIdOfSuborgs (connector_id connector)
      then
        (case getGovernanceConnectorsProperties showGovernanceConnectors
                (connector_id connector) of
           Inl e \<Rightarrow> Inl e
         | Inr showProperties \<Rightarrow>
             Inr (True,
                  h(r := connector\<lparr>connector_properties :=
                          filter (\<lambda>property. array_includes showProperties (name property))
                            (connector_properties connector)\<rparr>)))
      else Inr (False, h))"

fun filterLoop ::
  "connectorForOrgs list \<Rightarrow> string list \<Rightarrow> ref list \<Rightarrow> ('p, 'c) store
     \<Rightarrow> error + (ref list \<times> ('p, 'c) store)" where
  "filterLoop sc ids [] h = Inr ([], h)"
| "filterLoop sc ids (r # rs) h =
     (case filterCallback sc ids r h of
        Inl e \<Rightarrow> Inl e
      | Inr (keep, h') \<Rightarrow>
          (case filterLoop sc ids rs h' of
             Inl e \<Rightarrow> Inl e
           | Inr (kept, h'') \<Rightarrow> Inr (if keep then r # kept else kept, h'')))"

definition filterGovernanceConnectorCategories ::
  "string \<Rightarrow> ref list \<Rightarrow> ('p, 'c) store \<Rightarrow> error + (ref list \<times> ('p, 'c) store)" where
  "filterGovernanceConnectorCategories governanceCategoryId governanceConnectors h =
     (case firstMatch (\<lambda>category. category_id category = governanceCategoryId)
             SHOW_GOVERNANCE_CONNECTORS_FOR_SUBORGS of
        Inl e \<Rightarrow> Inl e
      | Inr category \<Rightarrow>
          (let showGovernanceConnectors = connectors category;
               showGovernanceConnectorsIdOfSuborgs =
                 fold (\<lambda>connector ids. push ids (org_connector_id connector))
                   showGovernanceConnectors []
           in filterLoop showGovernanceConnectors showGovernanceConnectorsIdOfSuborgs
                governanceConnectors h))"

subsection \<open>resolveFieldLabel and resolveFieldHint\<close>

text \<open>
  lodash's \<open>camelCase\<close> and the translation provider \<open>I18n.instance\<close> (its \<open>exists\<close>
  and its \<open>t\<close>) are libraries outside the repository: the model takes them as
  parameters.
\<close>

record i18n =
  i18n_exists :: "string \<Rightarrow> bool"
  i18n_t :: "string \<Rightarrow> string"

definition fieldLabelKey :: "(string \<Rightarrow> string) \<Rightarrow> string \<Rightarrow> string \<Rightarrow> string" where
  "fieldLabelKey camelCase category name' =
     ''console:manage.features.governanceConnectors.connectorCategories.''
       @ camelCase category @ ''.connectors.'' @ camelCase name'
       @ ''.properties.'' @ camelCase name' @ ''.label''"

definition resolveFieldLabel ::
  "(string \<Rightarrow> string) \<Rightarrow> i18n \<Rightarrow> string \<Rightarrow> string \<Rightarrow> string \<Rightarrow> string" where
  "resolveFieldLabel camelCase instance' category name' displayName =
     (let fieldLabel = displayName in
      if i18n_exists instance' (fieldLabelKey camelCase category name')
      then i18n_t instance' (fieldLabelKey camelCase category name')
      else fieldLabel)"

definition fieldHintKey :: "(string \<Rightarrow> string) \<Rightarrow> string \<Rightarrow> string \<Rightarrow> string" where
  "fieldHintKey camelCase category name' =
     ''console:manage.features.governanceConnectors.connectorCategories.''
       @ camelCase category @ ''.connectors.'' @ camelCase name'
       @ ''.properties.'' @ camelCase name' @ ''.hint''"

definition resolveFieldHint ::
  "(string \<Rightarrow> string) \<Rightarrow> i18n \<Rightarrow> string \<Rightarrow> string \<Rightarrow> string \<Rightarrow> string" where
  "resolveFieldHint camelCase instance' category name' description =
     (let fieldHint = description in
      if i18n_exists instance' (fieldHintKey camelCase category name')
      then i18n_t instance' (fieldHintKey camelCase category name')
      else fieldHint)"

subsection \<open>The allow-list of a category, and the store a filter run leaves\<close>

text \<open>The allow-list entry of a category id is the first category of the table with that
  id; it allows the ids of its connectors and, for a connector id, the properties of its
  first connector with that id.\<close>

definition allowListEntry :: "string \<Rightarrow> categoryForOrgs option" where
  "allowListEntry governanceCategoryId =
     find (\<lambda>category. category_id category = governanceCategoryId)
       SHOW_GOVERNANCE_CONNECTORS_FOR_SUBORGS"

definition allowedIds :: "categoryForOrgs \<Rightarrow> string list" where
  "allowedIds category = map org_connector_id (connectors category)"

definition allowedProperties :: "categoryForOrgs \<Rightarrow> string \<Rightarrow> string list" where
  "allowedProperties category k =
     (case find (\<lambda>connector. org_connector_id connector = k) (connectors category) of
        None \<Rightarrow> []
      | Some connector \<Rightarrow> org_properties connector)"

definition restrictProperties ::
  "categoryForOrgs \<Rightarrow> ('p, 'c) connector \<Rightarrow> ('p, 'c) connector" where
  "restrictProperties category connector =
     connector\<lparr>connector_properties :=
       filter (\<lambda>property. name property \<in> set (allowedProperties category (connector_id connector)))
         (connector_properties connector)\<rparr>"

text \<open>The store in which every allow-listed connector among \<open>rs\<close> has its properties
  restricted.\<close>

definition storeAfter ::
  "categoryForOrgs \<Rightarrow> ref list \<Rightarrow> ('p, 'c) store \<Rightarrow> ('p, 'c) store" where
  "storeAfter category rs h =
     (\<lambda>r. if r \<in> set rs \<and> connector_id (h r) \<in> set (allowedIds category)
          then restrictProperties category (h r) else h r)"

subsection \<open>Example inputs\<close>

text \<open>
  A store with the connector \<open>askPassword\<close> at reference 0 and \<open>selfSignUp\<close>
  everywhere else. The first carries an id of the User Onboarding entry and three
  properties: one that the entry does not list, and two that it lists in the opposite
  order. \<open>askPasswordFiltered\<close> is the same connector with the two listed properties.
\<close>

definition askPassword :: "(unit, unit) connector" where
  "askPassword =
     \<lparr>connector_id = ''dXNlci1lbWFpbC12ZXJpZmljYXRpb24'',
      connector_properties =
        [\<lparr>name = ''EmailVerification.Internal'', value = ''x''\<rparr>,
         \<lparr>name = ''EmailVerification.ExpiryTime'', value = ''1440''\<rparr>,
         \<lparr>name = ''EmailVerification.Enable'', value = ''true''\<rparr>],
      connector_rest = ()\<rparr>"

definition selfSignUp :: "(unit, unit) connector" where
  "selfSignUp =
     \<lparr>connector_id = ''c2VsZi1zaWduLXVw'',
      connector_properties = [\<lparr>name = ''SelfRegistration.Enable'', value = ''true''\<rparr>],
      connector_rest = ()\<rparr>"

definition exampleStore :: "(unit, unit) store" where
  "exampleStore = (\<lambda>r. selfSignUp)(0 := askPassword)"

definition askPasswordFiltered :: "(unit, unit) connector" where
  "askPasswordFiltered =
     \<lparr>connector_id = ''dXNlci1lbWFpbC12ZXJpZmljYXRpb24'',
      connector_properties =
        [\<lparr>name = ''EmailVerification.ExpiryTime'', value = ''1440''\<rparr>,
         \<lparr>name = ''EmailVerification.Enable'', value = ''true''\<rparr>],
      connector_rest = ()\<rparr>"

text \<open>A camel-casing of the two strings of the specification's example, and a translation
  provider that knows the label key of that example only.\<close>

definition exampleCamelCase :: "string \<Rightarrow> string" where
  "exampleCamelCase s =
     (if s = ''account-recovery'' then ''accountRecovery''
      else if s = ''EmailVerification.Enable'' then ''emailVerificationEnable''
      else s)"

definition exampleI18n :: i18n where
  "exampleI18n =
     \<lparr>i18n_exists = (\<lambda>key. key =
        ''console:manage.features.governanceConnectors.connectorCategories.accountRecovery.connectors.emailVerificationEnable.properties.emailVerificationEnable.label''),
      i18n_t = (\<lambda>key. ''Enable email verification'')\<rparr>"

section \<open>Properties of the self-registration mapping\<close>

lemmas key_defs =
  SELF_REGISTRATION_ENABLE_def ACCOUNT_LOCK_ON_CREATION_def
  NOTIFICATION_INTERNALLY_MANAGED_def RE_CAPTCHA_def
  VERIFICATION_CODE_EXPIRY_TIME_def SMS_OTP_EXPIRY_TIME_def CALLBACK_REGEX_def

lemma distinct_keys: "distinct (flagKeys @ scalarKeys)"
  by (simp add: flagKeys_def scalarKeys_def key_defs)

lemma checkboxCallback_append:
  "checkboxCallback p vs = vs @ (if isTrueFlag p then [name p] else [])"
  by (simp add: checkboxCallback_def isTrueFlag_def flagKeys_def push_def Let_def key_defs)

lemma fold_checkboxCallback:
  "fold checkboxCallback ps vs = vs @ map name (filter isTrueFlag ps)"
  by (induction ps arbitrary: vs) (simp_all add: checkboxCallback_append)

lemma checkbox_filter:
  "getSelfRegistrationCheckboxValues data = map name (filter isTrueFlag (properties data))"
  by (simp add: getSelfRegistrationCheckboxValues_def fold_checkboxCallback)

lemma all_take_nth:
  "i \<le> length ps \<Longrightarrow> list_all P (take i ps) \<longleftrightarrow> (\<forall>j<i. P (ps ! j))"
  by (simp add: list_all_length)

lemma findValue_Inr:
  "findValue k ps = Inr v \<longleftrightarrow> (\<exists>i. firstNamed k ps i \<and> v = value (ps ! i))"
proof (cases "find (\<lambda>property. name property = k) ps")
  case None
  then have "\<forall>p\<in>set ps. name p \<noteq> k" by (simp add: find_None_iff)
  then have "\<not> (\<exists>i. firstNamed k ps i)" by (auto simp: firstNamed_def)
  with None show ?thesis by (simp add: findValue_def)
next
  case (Some p)
  then obtain i where i: "i < length ps" "name (ps ! i) = k" "p = ps ! i"
      "\<forall>j<i. name (ps ! j) \<noteq> k"
    by (auto simp: find_Some_iff)
  then have fi: "firstNamed k ps i" by (simp add: firstNamed_def all_take_nth)
  have uniq: "i' = i" if "firstNamed k ps i'" for i'
  proof -
    from that have a: "i' < length ps" "name (ps ! i') = k" "\<forall>j<i'. name (ps ! j) \<noteq> k"
      by (auto simp: firstNamed_def list_all_length)
    have "\<not> i' < i" using a(2) i(4) by blast
    moreover have "\<not> i < i'" using a(3) i(2) by blast
    ultimately show ?thesis by simp
  qed
  have fv: "findValue k ps = Inr (value (ps ! i))"
    using Some i(3) by (simp add: findValue_def)
  show ?thesis
  proof
    assume "findValue k ps = Inr v"
    with fv have "v = value (ps ! i)" by simp
    with fi show "\<exists>i. firstNamed k ps i \<and> v = value (ps ! i)" by blast
  next
    assume "\<exists>i. firstNamed k ps i \<and> v = value (ps ! i)"
    then obtain i' where "firstNamed k ps i'" "v = value (ps ! i')" by blast
    with uniq have "v = value (ps ! i)" by blast
    with fv show "findValue k ps = Inr v" by simp
  qed
qed

lemma findValue_Inl:
  "findValue k ps = Inl e \<longleftrightarrow> (e = TypeError \<and> k \<notin> name ` set ps)"
proof (cases "find (\<lambda>property. name property = k) ps")
  case None
  then have "findValue k ps = Inl TypeError" by (simp add: findValue_def)
  moreover from None have "k \<notin> name ` set ps" by (auto simp: find_None_iff)
  ultimately show ?thesis by auto
next
  case (Some p)
  then have "p \<in> set ps" "name p = k" by (auto simp: find_Some_iff)
  then have "k \<in> name ` set ps" by auto
  with Some show ?thesis by (simp add: findValue_def)
qed

lemma findValue_present:
  "k \<in> name ` set ps \<Longrightarrow> \<exists>v. findValue k ps = Inr v"
  by (cases "findValue k ps") (auto simp: findValue_Inl)

lemma includes_checkbox:
  "k \<in> set flagKeys \<Longrightarrow>
     array_includes (getSelfRegistrationCheckboxValues data) k \<longleftrightarrow>
       (\<exists>p\<in>set (properties data). name p = k \<and> value p = ''true'')"
  by (auto simp: array_includes_def checkbox_filter isTrueFlag_def)

lemma toViewModel_Inr:
  "toViewModel data = Inr vm \<longleftrightarrow>
     (\<exists>v s c. findValue VERIFICATION_CODE_EXPIRY_TIME (properties data) = Inr v \<and>
        findValue SMS_OTP_EXPIRY_TIME (properties data) = Inr s \<and>
        findValue CALLBACK_REGEX (properties data) = Inr c \<and>
        vm = \<lparr>checkboxValues = getSelfRegistrationCheckboxValues data,
              verificationCodeExpiryTime = v, smsOTPExpiryTime = s, callbackRegex = c\<rparr>)"
  by (auto simp: toViewModel_def Let_def split: sum.splits)

lemma toViewModel_Inl:
  "toViewModel data = Inl e \<longleftrightarrow>
     (e = TypeError \<and> (\<exists>k\<in>set scalarKeys. k \<notin> name ` set (properties data)))"
proof -
  let ?ps = "properties data"
  have va: "\<And>k. (\<exists>v. findValue k ?ps = Inr v) \<or> findValue k ?ps = Inl TypeError"
    by (simp add: findValue_def split: option.splits)
  have vb: "\<And>k. findValue k ?ps = Inl TypeError \<longleftrightarrow> k \<notin> name ` set ?ps"
    by (simp add: findValue_Inl)
  show ?thesis
    using va [of VERIFICATION_CODE_EXPIRY_TIME] va [of SMS_OTP_EXPIRY_TIME]
      va [of CALLBACK_REGEX] vb [of VERIFICATION_CODE_EXPIRY_TIME]
      vb [of SMS_OTP_EXPIRY_TIME] vb [of CALLBACK_REGEX]
    by (auto simp: toViewModel_def Let_def scalarKeys_def)
qed

text \<open>
  Claim C10. The checkbox values are the names of those input properties that carry one
  of the four flag keys and the value \<open>"true"\<close>, in the order of the input and once
  per occurrence: every element is a flag key, a key occurs as often as the input has
  a property of that name with the value \<open>"true"\<close>, and the load handler stores this
  list unchanged.
\<close>
theorem checkbox_values_shape:
  fixes data :: "('a, 'b) response_scheme"
  shows "getSelfRegistrationCheckboxValues data = map name (filter isTrueFlag (properties data))
    \<and> set (getSelfRegistrationCheckboxValues data) \<subseteq> set flagKeys
    \<and> (\<forall>k. count_list (getSelfRegistrationCheckboxValues data) k =
          (if k \<in> set flagKeys
           then length (filter (\<lambda>p. name p = k \<and> value p = ''true'') (properties data))
           else 0))
    \<and> (\<forall>vm. toViewModel data = Inr vm \<longrightarrow>
          checkboxValues vm = getSelfRegistrationCheckboxValues data)"
proof -
  let ?ps = "properties data"
  have a: "getSelfRegistrationCheckboxValues data = map name (filter isTrueFlag ?ps)"
    by (rule checkbox_filter)
  have b: "set (map name (filter isTrueFlag ?ps)) \<subseteq> set flagKeys"
    by (auto simp: isTrueFlag_def)
  have c: "count_list (map name (filter isTrueFlag ps)) k =
          (if k \<in> set flagKeys
           then length (filter (\<lambda>p. name p = k \<and> value p = ''true'') ps)
           else 0)" for k and ps :: "'a property_scheme list"
    by (induction ps) (auto simp: isTrueFlag_def)
  have d: "\<forall>vm. toViewModel data = Inr vm \<longrightarrow>
          checkboxValues vm = getSelfRegistrationCheckboxValues data"
    by (auto simp: toViewModel_Inr)
  show ?thesis using a b c d by simp
qed

theorem checkbox_values_shape_witness:
  "getSelfRegistrationCheckboxValues repeatedFlags =
     [RE_CAPTCHA, SELF_REGISTRATION_ENABLE, RE_CAPTCHA]
   \<and> (\<exists>vm. toViewModel repeatedFlags = Inr vm
         \<and> checkboxValues vm = [RE_CAPTCHA, SELF_REGISTRATION_ENABLE, RE_CAPTCHA])"
proof -
  note shape = checkbox_values_shape [of repeatedFlags]
  have "map name (filter isTrueFlag (properties repeatedFlags)) =
      [RE_CAPTCHA, SELF_REGISTRATION_ENABLE, RE_CAPTCHA]"
    by (simp add: repeatedFlags_def isTrueFlag_def flagKeys_def key_defs)
  with shape have v: "getSelfRegistrationCheckboxValues repeatedFlags =
      [RE_CAPTCHA, SELF_REGISTRATION_ENABLE, RE_CAPTCHA]"
    by simp
  obtain vm where r: "toViewModel repeatedFlags = Inr vm"
    by (simp add: toViewModel_def repeatedFlags_def findValue_def key_defs)
  with shape have "checkboxValues vm = getSelfRegistrationCheckboxValues repeatedFlags"
    by blast
  with v r have "\<exists>vm. toViewModel repeatedFlags = Inr vm
         \<and> checkboxValues vm = [RE_CAPTCHA, SELF_REGISTRATION_ENABLE, RE_CAPTCHA]"
    by simp
  with v show ?thesis by (rule conjI)
qed

text \<open>
  Claim C7. A flag key is among the checkbox values exactly when some input property
  has that name and the value \<open>"true"\<close>. Whenever the load handler returns a
  view-model, its checkbox values are that list and each scalar field is the value of
  the first property with the field's key; it returns one whenever the three scalar
  keys occur in the input.
\<close>
theorem toViewModel_fields:
  fixes data :: "('a, 'b) response_scheme"
  shows "(\<forall>k\<in>set flagKeys.
            k \<in> set (getSelfRegistrationCheckboxValues data) \<longleftrightarrow>
              (\<exists>p\<in>set (properties data). name p = k \<and> value p = ''true''))
    \<and> (\<forall>vm. toViewModel data = Inr vm \<longrightarrow>
          checkboxValues vm = getSelfRegistrationCheckboxValues data
          \<and> (\<exists>i. firstNamed VERIFICATION_CODE_EXPIRY_TIME (properties data) i
                \<and> verificationCodeExpiryTime vm = value (properties data ! i))
          \<and> (\<exists>i. firstNamed SMS_OTP_EXPIRY_TIME (properties data) i
                \<and> smsOTPExpiryTime vm = value (properties data ! i))
          \<and> (\<exists>i. firstNamed CALLBACK_REGEX (properties data) i
                \<and> callbackRegex vm = value (properties data ! i)))
    \<and> ((\<forall>k\<in>set scalarKeys. k \<in> name ` set (properties data)) \<longrightarrow>
          (\<exists>vm. toViewModel data = Inr vm))"
proof (intro conjI)
  show "\<forall>k\<in>set flagKeys.
            k \<in> set (getSelfRegistrationCheckboxValues data) \<longleftrightarrow>
              (\<exists>p\<in>set (properties data). name p = k \<and> value p = ''true'')"
    using includes_checkbox [of _ data] by (simp add: array_includes_def)
  show "\<forall>vm. toViewModel data = Inr vm \<longrightarrow>
          checkboxValues vm = getSelfRegistrationCheckboxValues data
          \<and> (\<exists>i. firstNamed VERIFICATION_CODE_EXPIRY_TIME (properties data) i
                \<and> verificationCodeExpiryTime vm = value (properties data ! i))
          \<and> (\<exists>i. firstNamed SMS_OTP_EXPIRY_TIME (properties data) i
                \<and> smsOTPExpiryTime vm = value (properties data ! i))
          \<and> (\<exists>i. firstNamed CALLBACK_REGEX (properties data) i
                \<and> callbackRegex vm = value (properties data ! i))"
    by (auto simp: toViewModel_Inr findValue_Inr)
  show "(\<forall>k\<in>set scalarKeys. k \<in> name ` set (properties data)) \<longrightarrow>
          (\<exists>vm. toViewModel data = Inr vm)"
  proof
    assume all: "\<forall>k\<in>set scalarKeys. k \<in> name ` set (properties data)"
    show "\<exists>vm. toViewModel data = Inr vm"
    proof (cases "toViewModel data")
      case (Inl e)
      with all show ?thesis by (simp add: toViewModel_Inl)
    next
      case (Inr vm)
      then show ?thesis by blast
    qed
  qed
qed

lemma specExample_result:
  "toViewModel specExample =
     Inr \<lparr>checkboxValues = [''SelfRegistration.Enable''],
          verificationCodeExpiryTime = ''1440'', smsOTPExpiryTime = ''1'',
          callbackRegex = ''.*''\<rparr>"
  by (simp add: toViewModel_def specExample_def checkbox_filter isTrueFlag_def flagKeys_def
      findValue_def key_defs)

theorem toViewModel_fields_witness:
  "list_all (\<lambda>k. k \<in> name ` set (properties specExample)) scalarKeys
   \<and> (\<exists>vm. toViewModel specExample = Inr vm
         \<and> checkboxValues vm = [''SelfRegistration.Enable'']
         \<and> verificationCodeExpiryTime vm = ''1440'')"
proof -
  have h: "\<forall>k\<in>set scalarKeys. k \<in> name ` set (properties specExample)"
    by (simp add: scalarKeys_def specExample_def key_defs)
  from toViewModel_fields [of specExample] h
  obtain vm where vm: "toViewModel specExample = Inr vm" by blast
  then have "checkboxValues vm = [''SelfRegistration.Enable'']"
      "verificationCodeExpiryTime vm = ''1440''"
    by (auto simp: specExample_result)
  with vm have "\<exists>vm. toViewModel specExample = Inr vm
         \<and> checkboxValues vm = [''SelfRegistration.Enable'']
         \<and> verificationCodeExpiryTime vm = ''1440''"
    by blast
  moreover from h
  have "list_all (\<lambda>k. k \<in> name ` set (properties specExample)) scalarKeys"
    by (simp add: list_all_iff)
  ultimately show ?thesis by (rule conjI [rotated])
qed

text \<open>
  Claim C6. For every view-model the patch data holds seven entries, one per declared
  key, in the fixed order of the four flag keys followed by the three scalar keys; a
  flag entry is \<open>"true"\<close> exactly when the key is in \<open>checkboxValues\<close>, and a
  scalar entry carries the field of the view-model as it is.
\<close>
theorem patch_data_complete:
  "getSelfSignUpPatchCallData vm =
     \<lparr>operation = ''UPDATE'',
      patch_properties =
        map (\<lambda>k. \<lparr>name = k, value = (if k \<in> set (checkboxValues vm) then ''true'' else ''false'')\<rparr>)
          flagKeys
        @ [\<lparr>name = VERIFICATION_CODE_EXPIRY_TIME, value = verificationCodeExpiryTime vm\<rparr>,
           \<lparr>name = SMS_OTP_EXPIRY_TIME, value = smsOTPExpiryTime vm\<rparr>,
           \<lparr>name = CALLBACK_REGEX, value = callbackRegex vm\<rparr>]\<rparr>
   \<and> map name (patch_properties (getSelfSignUpPatchCallData vm)) = flagKeys @ scalarKeys
   \<and> distinct (flagKeys @ scalarKeys)
   \<and> length (patch_properties (getSelfSignUpPatchCallData vm)) = 7"
  using distinct_keys
  by (simp add: getSelfSignUpPatchCallData_def flagKeys_def scalarKeys_def boolString_def
      array_includes_def)

theorem patch_data_complete_witness:
  "patch_properties (getSelfSignUpPatchCallData
       \<lparr>checkboxValues = [RE_CAPTCHA, ''Unknown'', RE_CAPTCHA],
        verificationCodeExpiryTime = ''-5'', smsOTPExpiryTime = '''', callbackRegex = ''[''\<rparr>)
   = [\<lparr>name = SELF_REGISTRATION_ENABLE, value = ''false''\<rparr>,
      \<lparr>name = ACCOUNT_LOCK_ON_CREATION, value = ''false''\<rparr>,
      \<lparr>name = NOTIFICATION_INTERNALLY_MANAGED, value = ''false''\<rparr>,
      \<lparr>name = RE_CAPTCHA, value = ''true''\<rparr>,
      \<lparr>name = VERIFICATION_CODE_EXPIRY_TIME, value = ''-5''\<rparr>,
      \<lparr>name = SMS_OTP_EXPIRY_TIME, value = ''''\<rparr>,
      \<lparr>name = CALLBACK_REGEX, value = ''[''\<rparr>]"
  using patch_data_complete
    [of "\<lparr>checkboxValues = [RE_CAPTCHA, ''Unknown'', RE_CAPTCHA],
        verificationCodeExpiryTime = ''-5'', smsOTPExpiryTime = '''', callbackRegex = ''[''\<rparr>"]
  by (simp add: flagKeys_def key_defs)

lemma unique_named:
  assumes one: "length (filter (\<lambda>p. name p = k) ps) = 1"
    and fv: "findValue k ps = Inr v"
  shows "(\<forall>p\<in>set ps. name p = k \<longrightarrow> value p = v) \<and> (\<exists>p\<in>set ps. name p = k \<and> value p = v)"
proof -
  from one obtain q where q: "filter (\<lambda>p. name p = k) ps = [q]"
    by (cases "filter (\<lambda>p. name p = k) ps") auto
  have mem: "p \<in> set ps \<Longrightarrow> name p = k \<Longrightarrow> p = q" for p
  proof -
    assume "p \<in> set ps" "name p = k"
    then have "p \<in> set (filter (\<lambda>p. name p = k) ps)" by simp
    with q show "p = q" by simp
  qed
  from fv obtain i where i: "firstNamed k ps i" "v = value (ps ! i)"
    by (auto simp: findValue_Inr)
  then have "ps ! i \<in> set ps" "name (ps ! i) = k" by (auto simp: firstNamed_def)
  with mem i have "v = value q" "q \<in> set ps" "name q = k" by auto
  with mem show ?thesis by blast
qed

lemma once_present:
  "length (filter (\<lambda>p. name p = k) ps) = 1 \<Longrightarrow> k \<in> name ` set ps"
proof -
  assume "length (filter (\<lambda>p. name p = k) ps) = 1"
  then obtain q where "filter (\<lambda>p. name p = k) ps = [q]"
    by (cases "filter (\<lambda>p. name p = k) ps") auto
  then have "q \<in> set (filter (\<lambda>p. name p = k) ps)" by simp
  then show ?thesis by auto
qed

text \<open>
  Claim C1. When each scalar key occurs exactly once in the input, the load handler
  returns a view-model, and the patch data built from it has, for each flag key,
  \<open>"true"\<close> exactly when an input property of that name had the value \<open>"true"\<close>
  (and \<open>"false"\<close> otherwise), and for each scalar key the value that key has in the
  input.
\<close>
theorem load_then_patch_roundtrip:
  fixes data :: "('a, 'b) response_scheme"
  assumes once: "\<forall>k\<in>set scalarKeys. length (filter (\<lambda>p. name p = k) (properties data)) = 1"
  shows "\<exists>vm v s c.
     toViewModel data = Inr vm
     \<and> (\<forall>p\<in>set (properties data).
           (name p = VERIFICATION_CODE_EXPIRY_TIME \<longrightarrow> value p = v)
         \<and> (name p = SMS_OTP_EXPIRY_TIME \<longrightarrow> value p = s)
         \<and> (name p = CALLBACK_REGEX \<longrightarrow> value p = c))
     \<and> patch_properties (getSelfSignUpPatchCallData vm) =
         map (\<lambda>k. flagEntry (\<exists>p\<in>set (properties data). name p = k \<and> value p = ''true'') k)
           flagKeys
         @ [\<lparr>name = VERIFICATION_CODE_EXPIRY_TIME, value = v\<rparr>,
            \<lparr>name = SMS_OTP_EXPIRY_TIME, value = s\<rparr>,
            \<lparr>name = CALLBACK_REGEX, value = c\<rparr>]"
proof -
  let ?ps = "properties data"
  from once have o1: "length (filter (\<lambda>p. name p = VERIFICATION_CODE_EXPIRY_TIME) ?ps) = 1"
    and o2: "length (filter (\<lambda>p. name p = SMS_OTP_EXPIRY_TIME) ?ps) = 1"
    and o3: "length (filter (\<lambda>p. name p = CALLBACK_REGEX) ?ps) = 1"
    by (simp_all add: scalarKeys_def)
  obtain v where v: "findValue VERIFICATION_CODE_EXPIRY_TIME ?ps = Inr v"
    using findValue_present [OF once_present [OF o1]] by blast
  obtain s where s: "findValue SMS_OTP_EXPIRY_TIME ?ps = Inr s"
    using findValue_present [OF once_present [OF o2]] by blast
  obtain c where c: "findValue CALLBACK_REGEX ?ps = Inr c"
    using findValue_present [OF once_present [OF o3]] by blast
  define vm where "vm = \<lparr>checkboxValues = getSelfRegistrationCheckboxValues data,
              verificationCodeExpiryTime = v, smsOTPExpiryTime = s, callbackRegex = c\<rparr>"
  have r: "toViewModel data = Inr vm"
    using v s c by (simp add: toViewModel_Inr vm_def)
  have u: "\<forall>p\<in>set ?ps.
           (name p = VERIFICATION_CODE_EXPIRY_TIME \<longrightarrow> value p = v)
         \<and> (name p = SMS_OTP_EXPIRY_TIME \<longrightarrow> value p = s)
         \<and> (name p = CALLBACK_REGEX \<longrightarrow> value p = c)"
    using unique_named [OF o1 v] unique_named [OF o2 s] unique_named [OF o3 c] by blast
  have fl: "\<And>k. k \<in> set flagKeys \<Longrightarrow>
      boolString (array_includes (checkboxValues vm) k) =
      boolString (\<exists>p\<in>set ?ps. name p = k \<and> value p = ''true'')"
    using includes_checkbox [of _ data] by (simp add: vm_def)
  have "patch_properties (getSelfSignUpPatchCallData vm) =
         map (\<lambda>k. flagEntry (\<exists>p\<in>set ?ps. name p = k \<and> value p = ''true'') k) flagKeys
         @ [\<lparr>name = VERIFICATION_CODE_EXPIRY_TIME, value = v\<rparr>,
            \<lparr>name = SMS_OTP_EXPIRY_TIME, value = s\<rparr>,
            \<lparr>name = CALLBACK_REGEX, value = c\<rparr>]"
    using fl by (simp add: getSelfSignUpPatchCallData_def flagEntry_def flagKeys_def vm_def)
  with r u show ?thesis by blast
qed

theorem load_then_patch_roundtrip_witness:
  "list_all (\<lambda>k. length (filter (\<lambda>p. name p = k) (properties specExample)) = 1) scalarKeys
   \<and> (\<exists>vm. toViewModel specExample = Inr vm
        \<and> patch_properties (getSelfSignUpPatchCallData vm) =
            [\<lparr>name = SELF_REGISTRATION_ENABLE, value = ''true''\<rparr>,
             \<lparr>name = ACCOUNT_LOCK_ON_CREATION, value = ''false''\<rparr>,
             \<lparr>name = NOTIFICATION_INTERNALLY_MANAGED, value = ''false''\<rparr>,
             \<lparr>name = RE_CAPTCHA, value = ''false''\<rparr>,
             \<lparr>name = VERIFICATION_CODE_EXPIRY_TIME, value = ''1440''\<rparr>,
             \<lparr>name = SMS_OTP_EXPIRY_TIME, value = ''1''\<rparr>,
             \<lparr>name = CALLBACK_REGEX, value = ''.*''\<rparr>])"
proof -
  have h: "\<forall>k\<in>set scalarKeys. length (filter (\<lambda>p. name p = k) (properties specExample)) = 1"
    by (simp add: scalarKeys_def specExample_def key_defs)
  from load_then_patch_roundtrip [OF h] obtain vm v s c where
    r: "toViewModel specExample = Inr vm"
    and u: "\<forall>p\<in>set (properties specExample).
           (name p = VERIFICATION_CODE_EXPIRY_TIME \<longrightarrow> value p = v)
         \<and> (name p = SMS_OTP_EXPIRY_TIME \<longrightarrow> value p = s)
         \<and> (name p = CALLBACK_REGEX \<longrightarrow> value p = c)"
    and p: "patch_properties (getSelfSignUpPatchCallData vm) =
         map (\<lambda>k. flagEntry (\<exists>p\<in>set (properties specExample). name p = k \<and> value p = ''true'') k)
           flagKeys
         @ [\<lparr>name = VERIFICATION_CODE_EXPIRY_TIME, value = v\<rparr>,
            \<lparr>name = SMS_OTP_EXPIRY_TIME, value = s\<rparr>,
            \<lparr>name = CALLBACK_REGEX, value = c\<rparr>]"
    by blast
  from u have "v = ''1440''" "s = ''1''" "c = ''.*''"
    by (simp_all add: specExample_def key_defs)
  with p have "patch_properties (getSelfSignUpPatchCallData vm) =
            [\<lparr>name = SELF_REGISTRATION_ENABLE, value = ''true''\<rparr>,
             \<lparr>name = ACCOUNT_LOCK_ON_CREATION, value = ''false''\<rparr>,
             \<lparr>name = NOTIFICATION_INTERNALLY_MANAGED, value = ''false''\<rparr>,
             \<lparr>name = RE_CAPTCHA, value = ''false''\<rparr>,
             \<lparr>name = VERIFICATION_CODE_EXPIRY_TIME, value = ''1440''\<rparr>,
             \<lparr>name = SMS_OTP_EXPIRY_TIME, value = ''1''\<rparr>,
             \<lparr>name = CALLBACK_REGEX, value = ''.*''\<rparr>]"
    by (simp add: flagEntry_def boolString_def flagKeys_def specExample_def key_defs)
  with r have "\<exists>vm. toViewModel specExample = Inr vm
        \<and> patch_properties (getSelfSignUpPatchCallData vm) =
            [\<lparr>name = SELF_REGISTRATION_ENABLE, value = ''true''\<rparr>,
             \<lparr>name = ACCOUNT_LOCK_ON_CREATION, value = ''false''\<rparr>,
             \<lparr>name = NOTIFICATION_INTERNALLY_MANAGED, value = ''false''\<rparr>,
             \<lparr>name = RE_CAPTCHA, value = ''false''\<rparr>,
             \<lparr>name = VERIFICATION_CODE_EXPIRY_TIME, value = ''1440''\<rparr>,
             \<lparr>name = SMS_OTP_EXPIRY_TIME, value = ''1''\<rparr>,
             \<lparr>name = CALLBACK_REGEX, value = ''.*''\<rparr>]"
    by blast
  moreover from h
  have "list_all (\<lambda>k. length (filter (\<lambda>p. name p = k) (properties specExample)) = 1) scalarKeys"
    by (simp add: list_all_iff)
  ultimately show ?thesis by (rule conjI [rotated])
qed

text \<open>
  Claim C4, as stated, fails: with the CallbackRegex key absent the load handler throws
  the runtime's \<open>TypeError\<close>, not a \<open>MissingPropertyError\<close> naming the key.
\<close>
theorem missing_key_error_counterexample:
  "toViewModel noCallbackRegex = Inl TypeError
   \<and> toViewModel noCallbackRegex \<noteq> Inl (MissingPropertyError CALLBACK_REGEX)"
  by (simp add: toViewModel_def noCallbackRegex_def findValue_def key_defs)

text \<open>
  Claim C4, amended. When a required scalar key is absent from the input, the load
  handler builds no view-model: it fails with the \<open>TypeError\<close> of reading
  \<open>.value\<close> from \<open>undefined\<close>, which names no key.
\<close>
theorem missing_key_fails:
  fixes data :: "('a, 'b) response_scheme"
  assumes "k \<in> set scalarKeys" and "k \<notin> name ` set (properties data)"
  shows "toViewModel data = Inl TypeError"
  using assms by (auto simp: toViewModel_Inl)

theorem missing_key_fails_witness:
  "CALLBACK_REGEX \<in> set scalarKeys
   \<and> CALLBACK_REGEX \<notin> name ` set (properties noCallbackRegex)
   \<and> toViewModel noCallbackRegex = Inl TypeError"
proof -
  have a: "CALLBACK_REGEX \<in> set scalarKeys" by (simp add: scalarKeys_def)
  have b: "CALLBACK_REGEX \<notin> name ` set (properties noCallbackRegex)"
    by (simp add: noCallbackRegex_def key_defs)
  from missing_key_fails [OF a b] a b show ?thesis by simp
qed

section \<open>Properties of GovernanceConnectorUtils\<close>

lemma split_nonempty: "split sep s \<noteq> []"
  by (induction s) (auto split: list.splits)

lemma join_split: "join [b] (split a s) = map (\<lambda>c. if c = a then b else c) s"
proof (induction s)
  case Nil
  then show ?case by simp
next
  case (Cons c cs)
  obtain piece pieces where sp: "split a cs = piece # pieces"
    using split_nonempty [of a cs] by (cases "split a cs") auto
  show ?case
  proof (cases "c = a")
    case True
    with Cons sp show ?thesis by simp
  next
    case False
    with Cons sp show ?thesis by (cases pieces) auto
  qed
qed

lemma encode_map:
  "encodeConnectorPropertyName n = map (\<lambda>c. if c = CHR ''.'' then CHR ''-'' else c) n"
  by (simp add: encodeConnectorPropertyName_def join_split)

lemma decode_map:
  "decodeConnectorPropertyName (Some n) =
     Some (map (\<lambda>c. if c = CHR ''-'' then CHR ''.'' else c) n)"
  by (simp add: decodeConnectorPropertyName_def join_split)


text \<open>
  Claim C9. Encoding replaces every \<open>.\<close> of a name by \<open>-\<close> and changes nothing
  else; decoding replaces every \<open>-\<close> of its argument by \<open>.\<close> and changes nothing
  else (and gives \<open>undefined\<close> for a missing argument). So decoding an encoded name
  gives the name with every \<open>-\<close> replaced by \<open>.\<close>: the name itself when it has no
  \<open>-\<close>, and another string in general, as on \<open>a-b.c\<close>.
\<close>
theorem decode_encode_roundtrip:
  "encodeConnectorPropertyName n = map (\<lambda>c. if c = CHR ''.'' then CHR ''-'' else c) n
   \<and> decodeConnectorPropertyName (Some m) =
       Some (map (\<lambda>c. if c = CHR ''-'' then CHR ''.'' else c) m)
   \<and> decodeConnectorPropertyName None = None
   \<and> (CHR ''-'' \<notin> set n \<longrightarrow>
      decodeConnectorPropertyName (Some (encodeConnectorPropertyName n)) = Some n)
   \<and> decodeConnectorPropertyName (Some (encodeConnectorPropertyName n)) =
       Some (map (\<lambda>c. if c = CHR ''-'' then CHR ''.'' else c) n)
   \<and> decodeConnectorPropertyName (Some (encodeConnectorPropertyName ''a-b.c'')) \<noteq>
       Some ''a-b.c''"
proof (intro conjI impI)
  show "encodeConnectorPropertyName n = map (\<lambda>c. if c = CHR ''.'' then CHR ''-'' else c) n"
    by (rule encode_map)
  show "decodeConnectorPropertyName (Some m) =
       Some (map (\<lambda>c. if c = CHR ''-'' then CHR ''.'' else c) m)"
    by (rule decode_map)
  show "decodeConnectorPropertyName None = None"
    by (simp add: decodeConnectorPropertyName_def)
  have m: "decodeConnectorPropertyName (Some (encodeConnectorPropertyName n)) =
       Some (map (\<lambda>c. if c = CHR ''-'' then CHR ''.'' else c) n)" for n
    by (simp add: encode_map decode_map o_def)
  show "decodeConnectorPropertyName (Some (encodeConnectorPropertyName n)) =
       Some (map (\<lambda>c. if c = CHR ''-'' then CHR ''.'' else c) n)"
    by (rule m)
  show "decodeConnectorPropertyName (Some (encodeConnectorPropertyName ''a-b.c'')) \<noteq>
       Some ''a-b.c''"
    by (simp add: m)
  assume "CHR ''-'' \<notin> set n"
  then have "map (\<lambda>c. if c = CHR ''-'' then CHR ''.'' else c) n = n"
    by (induction n) auto
  then show "decodeConnectorPropertyName (Some (encodeConnectorPropertyName n)) = Some n"
    by (simp add: m)
qed

theorem decode_encode_roundtrip_witness:
  "CHR ''-'' \<notin> set ''EmailVerification.AskPassword.ExpiryTime''
   \<and> encodeConnectorPropertyName ''EmailVerification.AskPassword.ExpiryTime'' =
       ''EmailVerification-AskPassword-ExpiryTime''
   \<and> decodeConnectorPropertyName (Some ''a-b.c-d'') = Some ''a.b.c.d''
   \<and> decodeConnectorPropertyName
        (Some (encodeConnectorPropertyName ''EmailVerification.AskPassword.ExpiryTime''))
       = Some ''EmailVerification.AskPassword.ExpiryTime''"
proof -
  note t = decode_encode_roundtrip
    [of "''EmailVerification.AskPassword.ExpiryTime''" "''a-b.c-d''"]
  have h: "CHR ''-'' \<notin> set ''EmailVerification.AskPassword.ExpiryTime''" by simp
  from t have "encodeConnectorPropertyName ''EmailVerification.AskPassword.ExpiryTime'' =
      map (\<lambda>c. if c = CHR ''.'' then CHR ''-'' else c)
        ''EmailVerification.AskPassword.ExpiryTime''"
    by (rule conjunct1)
  then have e: "encodeConnectorPropertyName ''EmailVerification.AskPassword.ExpiryTime'' =
       ''EmailVerification-AskPassword-ExpiryTime''"
    by simp
  from t have "decodeConnectorPropertyName (Some ''a-b.c-d'') =
      Some (map (\<lambda>c. if c = CHR ''-'' then CHR ''.'' else c) ''a-b.c-d'')"
    by blast
  then have d: "decodeConnectorPropertyName (Some ''a-b.c-d'') = Some ''a.b.c.d''"
    by simp
  from t h have r: "decodeConnectorPropertyName
        (Some (encodeConnectorPropertyName ''EmailVerification.AskPassword.ExpiryTime''))
       = Some ''EmailVerification.AskPassword.ExpiryTime''"
    by blast
  from h e d r show ?thesis by (intro conjI)
qed

text \<open>
  Claim C8. The lookup key of a label (of a hint) is the fixed prefix, the camel-cased
  category, the camel-cased name twice, and the suffix \<open>.label\<close> (\<open>.hint\<close>).
  When the translation provider reports that the key exists, the result is the
  provider's string for the key; otherwise it is the fallback, unchanged.
\<close>
theorem resolve_label_hint:
  "fieldLabelKey camelCase category n =
      ''console:manage.features.governanceConnectors.connectorCategories.''
       @ camelCase category @ ''.connectors.'' @ camelCase n
       @ ''.properties.'' @ camelCase n @ ''.label''
   \<and> fieldHintKey camelCase category n =
      ''console:manage.features.governanceConnectors.connectorCategories.''
       @ camelCase category @ ''.connectors.'' @ camelCase n
       @ ''.properties.'' @ camelCase n @ ''.hint''
   \<and> (i18n_exists I (fieldLabelKey camelCase category n) \<longrightarrow>
        resolveFieldLabel camelCase I category n displayName =
          i18n_t I (fieldLabelKey camelCase category n))
   \<and> (\<not> i18n_exists I (fieldLabelKey camelCase category n) \<longrightarrow>
        resolveFieldLabel camelCase I category n displayName = displayName)
   \<and> (i18n_exists I (fieldHintKey camelCase category n) \<longrightarrow>
        resolveFieldHint camelCase I category n description =
          i18n_t I (fieldHintKey camelCase category n))
   \<and> (\<not> i18n_exists I (fieldHintKey camelCase category n) \<longrightarrow>
        resolveFieldHint camelCase I category n description = description)"
  by (simp add: resolveFieldLabel_def resolveFieldHint_def fieldLabelKey_def fieldHintKey_def)

lemma firstMatch_find:
  "firstMatch pred xs = (case find pred xs of None \<Rightarrow> Inl TypeError | Some x \<Rightarrow> Inr x)"
  by (induction xs) (auto simp: firstMatch_def)

lemma fold_push_ids:
  "fold (\<lambda>connector ids. push ids (f connector)) xs acc = acc @ map f xs"
  by (induction xs arbitrary: acc) (simp_all add: push_def)

lemma getProperties_allowed:
  "k \<in> set (allowedIds category) \<Longrightarrow>
     getGovernanceConnectorsProperties (connectors category) k =
       Inr (allowedProperties category k)"
proof -
  assume "k \<in> set (allowedIds category)"
  then have "find (\<lambda>connector. org_connector_id connector = k) (connectors category) \<noteq> None"
    by (auto simp: allowedIds_def find_None_iff)
  then show ?thesis
    by (auto simp: getGovernanceConnectorsProperties_def firstMatch_find allowedProperties_def
        split: option.splits)
qed

lemma filterCallback_eq:
  "filterCallback (connectors category) (allowedIds category) r h =
     (if connector_id (h r) \<in> set (allowedIds category)
      then Inr (True, h(r := restrictProperties category (h r)))
      else Inr (False, h))"
  by (simp add: filterCallback_def Let_def array_includes_def getProperties_allowed
      restrictProperties_def)

lemma restrict_id [simp]:
  "connector_id (restrictProperties category c) = connector_id c"
  by (simp add: restrictProperties_def)

lemma restrict_idem [simp]:
  "restrictProperties category (restrictProperties category c) = restrictProperties category c"
  by (simp add: restrictProperties_def)


lemma filterLoop_eq:
  "filterLoop (connectors category) (allowedIds category) rs h =
     Inr (filter (\<lambda>r. connector_id (h r) \<in> set (allowedIds category)) rs,
          storeAfter category rs h)"
proof (induction rs arbitrary: h)
  case Nil
  show ?case by (simp add: storeAfter_def)
next
  case (Cons r rs)
  show ?case
  proof (cases "connector_id (h r) \<in> set (allowedIds category)")
    case False
    have "storeAfter category (r # rs) h = storeAfter category rs h"
      using False by (auto simp: storeAfter_def fun_eq_iff)
    with False Cons show ?thesis by (simp add: filterCallback_eq)
  next
    case True
    let ?h = "h(r := restrictProperties category (h r))"
    have ids: "\<And>x. connector_id (?h x) = connector_id (h x)" by simp
    have st: "storeAfter category rs ?h = storeAfter category (r # rs) h"
      using True by (auto simp: storeAfter_def fun_eq_iff)
    from True Cons [of ?h] show ?thesis
      by (simp add: filterCallback_eq ids st del: fun_upd_apply)
  qed
qed

lemma filterCategories_eq:
  "allowListEntry cid = Some category \<Longrightarrow>
     filterGovernanceConnectorCategories cid rs h =
       Inr (filter (\<lambda>r. connector_id (h r) \<in> set (allowedIds category)) rs,
            storeAfter category rs h)"
  using filterLoop_eq [of category rs h]
  by (simp add: filterGovernanceConnectorCategories_def firstMatch_find allowListEntry_def
      fold_push_ids allowedIds_def Let_def)

lemma filterCategories_unknown:
  "allowListEntry cid = None \<Longrightarrow> filterGovernanceConnectorCategories cid rs h = Inl TypeError"
  by (simp add: filterGovernanceConnectorCategories_def firstMatch_find allowListEntry_def)

lemma example_run:
  "filterGovernanceConnectorCategories ''VXNlciBPbmJvYXJkaW5n'' [0, 1] exampleStore =
     Inr ([0], exampleStore(0 := askPasswordFiltered))"
  by (simp add: filterGovernanceConnectorCategories_def firstMatch_def
      SHOW_GOVERNANCE_CONNECTORS_FOR_SUBORGS_def push_def filterCallback_def
      getGovernanceConnectorsProperties_def array_includes_def exampleStore_def
      askPassword_def selfSignUp_def askPasswordFiltered_def)

lemma example_entry:
  "allowListEntry ''VXNlciBPbmJvYXJkaW5n'' = Some (SHOW_GOVERNANCE_CONNECTORS_FOR_SUBORGS ! 1)"
  by (simp add: allowListEntry_def SHOW_GOVERNANCE_CONNECTORS_FOR_SUBORGS_def)

lemma example_no_entry:
  "allowListEntry ''account-recovery'' = None"
  by (simp add: allowListEntry_def SHOW_GOVERNANCE_CONNECTORS_FOR_SUBORGS_def)

text \<open>
  Claim C2, as stated, fails: the filter overwrites the properties of a connector of
  its input. The connector at reference 0 has three properties before the call and two
  after it.
\<close>
theorem input_connector_mutated_counterexample:
  "filterGovernanceConnectorCategories ''VXNlciBPbmJvYXJkaW5n'' [0, 1] exampleStore =
     Inr ([0], exampleStore(0 := askPasswordFiltered))
   \<and> map name (connector_properties (exampleStore 0)) =
       [''EmailVerification.Internal'', ''EmailVerification.ExpiryTime'',
        ''EmailVerification.Enable'']
   \<and> map name (connector_properties ((exampleStore(0 := askPasswordFiltered)) 0)) =
       [''EmailVerification.ExpiryTime'', ''EmailVerification.Enable'']"
proof (intro conjI)
  show "filterGovernanceConnectorCategories ''VXNlciBPbmJvYXJkaW5n'' [0, 1] exampleStore =
     Inr ([0], exampleStore(0 := askPasswordFiltered))"
    by (rule example_run)
  show "map name (connector_properties (exampleStore 0)) =
       [''EmailVerification.Internal'', ''EmailVerification.ExpiryTime'',
        ''EmailVerification.Enable'']"
    by (simp add: exampleStore_def askPassword_def)
  show "map name (connector_properties ((exampleStore(0 := askPasswordFiltered)) 0)) =
       [''EmailVerification.ExpiryTime'', ''EmailVerification.Enable'']"
    by (simp add: askPasswordFiltered_def)
qed

text \<open>
  Claim C2, amended. For a category id with an allow-list entry the filter returns a new
  array of references taken from its input. Every connector that is not returned is
  unchanged in the store; a returned connector is the input connector with its
  \<open>properties\<close> overwritten by the allow-listed ones, all other fields unchanged.
\<close>
theorem filter_store_frame:
  fixes h :: "('p, 'c) store"
  assumes entry: "allowListEntry cid = Some category"
  shows "\<exists>kept h'.
     filterGovernanceConnectorCategories cid rs h = Inr (kept, h')
     \<and> set kept \<subseteq> set rs
     \<and> (\<forall>r. r \<notin> set kept \<longrightarrow> h' r = h r)
     \<and> (\<forall>r\<in>set kept.
           h' r = (h r)\<lparr>connector_properties :=
                    filter (\<lambda>property. name property \<in>
                              set (allowedProperties category (connector_id (h r))))
                      (connector_properties (h r))\<rparr>)"
proof -
  let ?kept = "filter (\<lambda>r. connector_id (h r) \<in> set (allowedIds category)) rs"
  let ?h = "storeAfter category rs h"
  have run: "filterGovernanceConnectorCategories cid rs h = Inr (?kept, ?h)"
    by (rule filterCategories_eq [OF entry])
  have a: "set ?kept \<subseteq> set rs" by auto
  have b: "\<forall>r. r \<notin> set ?kept \<longrightarrow> ?h r = h r" by (simp add: storeAfter_def)
  have c: "\<forall>r\<in>set ?kept.
           ?h r = (h r)\<lparr>connector_properties :=
                    filter (\<lambda>property. name property \<in>
                              set (allowedProperties category (connector_id (h r))))
                      (connector_properties (h r))\<rparr>"
    by (simp add: storeAfter_def restrictProperties_def)
  from run a b c show ?thesis by blast
qed

theorem filter_store_frame_witness:
  "allowListEntry ''VXNlciBPbmJvYXJkaW5n'' = Some (SHOW_GOVERNANCE_CONNECTORS_FOR_SUBORGS ! 1)
   \<and> (\<exists>kept h'.
        filterGovernanceConnectorCategories ''VXNlciBPbmJvYXJkaW5n'' [0, 1] exampleStore =
          Inr (kept, h')
        \<and> kept = [0] \<and> h' 1 = exampleStore 1 \<and> h' 0 = askPasswordFiltered)"
proof -
  note e = example_entry
  from filter_store_frame [OF e, of "[0, 1]" exampleStore]
  obtain kept h' where
    run: "filterGovernanceConnectorCategories ''VXNlciBPbmJvYXJkaW5n'' [0, 1] exampleStore =
          Inr (kept, h')"
    and out: "\<forall>r. r \<notin> set kept \<longrightarrow> h' r = exampleStore r"
    by blast
  from run example_run have k: "kept = [0]" and h: "h' = exampleStore(0 := askPasswordFiltered)"
    by simp_all
  from out k have "h' 1 = exampleStore 1" by simp
  moreover from h have "h' 0 = askPasswordFiltered" by simp
  ultimately show ?thesis using e run k by blast
qed

text \<open>
  Claim C5. For a category id with an allow-list entry the filter returns exactly the
  input connectors whose id is the id of a connector of that entry, in input order.
  Each returned connector keeps its id, and its properties are the properties it had in
  the input whose name the entry allows for that connector id, in the order they had in
  the input.
\<close>
theorem filter_allow_listed:
  fixes h :: "('p, 'c) store"
  assumes entry: "allowListEntry cid = Some category"
  shows "\<exists>kept h'.
     filterGovernanceConnectorCategories cid rs h = Inr (kept, h')
     \<and> kept = filter (\<lambda>r. connector_id (h r) \<in> org_connector_id ` set (connectors category)) rs
     \<and> (\<forall>r\<in>set kept.
           connector_id (h' r) = connector_id (h r)
         \<and> connector_properties (h' r) =
             filter (\<lambda>property. name property \<in>
                       set (allowedProperties category (connector_id (h r))))
               (connector_properties (h r))
         \<and> (\<forall>property\<in>set (connector_properties (h' r)).
               \<exists>connector\<in>set (connectors category).
                 org_connector_id connector = connector_id (h r)
                 \<and> name property \<in> set (org_properties connector)))"
proof -
  let ?kept = "filter (\<lambda>r. connector_id (h r) \<in> set (allowedIds category)) rs"
  let ?h = "storeAfter category rs h"
  have run: "filterGovernanceConnectorCategories cid rs h = Inr (?kept, ?h)"
    by (rule filterCategories_eq [OF entry])
  have a: "?kept = filter (\<lambda>r. connector_id (h r) \<in> org_connector_id ` set (connectors category)) rs"
    by (simp add: allowedIds_def)
  have src: "\<exists>connector\<in>set (connectors category).
                 org_connector_id connector = k \<and> n \<in> set (org_properties connector)"
    if "n \<in> set (allowedProperties category k)" for n k
  proof (cases "find (\<lambda>connector. org_connector_id connector = k) (connectors category)")
    case None
    with that show ?thesis by (simp add: allowedProperties_def)
  next
    case (Some c)
    then have "c \<in> set (connectors category)" "org_connector_id c = k"
      by (auto simp: find_Some_iff)
    moreover from Some that have "n \<in> set (org_properties c)"
      by (simp add: allowedProperties_def)
    ultimately show ?thesis by blast
  qed
  have b: "\<forall>r\<in>set ?kept.
           connector_id (?h r) = connector_id (h r)
         \<and> connector_properties (?h r) =
             filter (\<lambda>property. name property \<in>
                       set (allowedProperties category (connector_id (h r))))
               (connector_properties (h r))
         \<and> (\<forall>property\<in>set (connector_properties (?h r)).
               \<exists>connector\<in>set (connectors category).
                 org_connector_id connector = connector_id (h r)
                 \<and> name property \<in> set (org_properties connector))"
  proof (intro ballI conjI)
    fix r
    assume r: "r \<in> set ?kept"
    then show "connector_id (?h r) = connector_id (h r)"
      by (simp add: storeAfter_def)
    from r show props: "connector_properties (?h r) =
             filter (\<lambda>property. name property \<in>
                       set (allowedProperties category (connector_id (h r))))
               (connector_properties (h r))"
      by (simp add: storeAfter_def restrictProperties_def)
    fix property
    assume "property \<in> set (connector_properties (?h r))"
    with props have "name property \<in> set (allowedProperties category (connector_id (h r)))"
      by simp
    then show "\<exists>connector\<in>set (connectors category).
                 org_connector_id connector = connector_id (h r)
                 \<and> name property \<in> set (org_properties connector)"
      by (rule src)
  qed
  show ?thesis
    by (intro exI conjI) (rule run, rule a, rule b)
qed

theorem filter_allow_listed_witness:
  "allowListEntry ''VXNlciBPbmJvYXJkaW5n'' = Some (SHOW_GOVERNANCE_CONNECTORS_FOR_SUBORGS ! 1)
   \<and> (\<exists>kept h'.
        filterGovernanceConnectorCategories ''VXNlciBPbmJvYXJkaW5n'' [0, 1] exampleStore =
          Inr (kept, h')
        \<and> kept = [0]
        \<and> map name (connector_properties (h' 0)) =
            [''EmailVerification.ExpiryTime'', ''EmailVerification.Enable''])"
proof -
  note e = example_entry
  from filter_allow_listed [OF e, of "[0, 1]" exampleStore]
  obtain kept h' where
    run: "filterGovernanceConnectorCategories ''VXNlciBPbmJvYXJkaW5n'' [0, 1] exampleStore =
          Inr (kept, h')"
    by blast
  from run example_run have k: "kept = [0]" and h: "h' = exampleStore(0 := askPasswordFiltered)"
    by simp_all
  from h have p: "map name (connector_properties (h' 0)) =
            [''EmailVerification.ExpiryTime'', ''EmailVerification.Enable'']"
    by (simp add: askPasswordFiltered_def)
  from run k p have "\<exists>kept h'.
        filterGovernanceConnectorCategories ''VXNlciBPbmJvYXJkaW5n'' [0, 1] exampleStore =
          Inr (kept, h')
        \<and> kept = [0]
        \<and> map name (connector_properties (h' 0)) =
            [''EmailVerification.ExpiryTime'', ''EmailVerification.Enable'']"
    by (intro exI [of _ kept] exI [of _ h']) simp
  with e show ?thesis by (rule conjI)
qed

text \<open>
  Claim C3, as stated, fails: for a category id without an allow-list entry the filter
  throws the runtime's \<open>TypeError\<close>, not an \<open>UnknownCategoryError\<close>.
\<close>
theorem unknown_category_error_counterexample:
  "filterGovernanceConnectorCategories ''not-a-real-category'' [] exampleStore = Inl TypeError
   \<and> filterGovernanceConnectorCategories ''not-a-real-category'' [] exampleStore \<noteq>
       Inl (UnknownCategoryError ''not-a-real-category'')"
  by (simp add: filterGovernanceConnectorCategories_def firstMatch_def
      SHOW_GOVERNANCE_CONNECTORS_FOR_SUBORGS_def)

text \<open>
  Claim C3, amended. For a category id that no category of the allow-list table has, and
  every array of connectors, the filter fails with the \<open>TypeError\<close> of reading
  \<open>.connectors\<close> from \<open>undefined\<close>; it does not return an empty array.
\<close>
theorem unknown_category_fails:
  fixes h :: "('p, 'c) store"
  assumes "cid \<notin> category_id ` set SHOW_GOVERNANCE_CONNECTORS_FOR_SUBORGS"
  shows "filterGovernanceConnectorCategories cid rs h = Inl TypeError
    \<and> filterGovernanceConnectorCategories cid rs h \<noteq> Inr ([], h)"
proof -
  from assms have "allowListEntry cid = None"
    by (auto simp: allowListEntry_def find_None_iff)
  then show ?thesis by (simp add: filterCategories_unknown)
qed

theorem unknown_category_fails_witness:
  "''account-recovery'' \<notin> category_id ` set SHOW_GOVERNANCE_CONNECTORS_FOR_SUBORGS
   \<and> filterGovernanceConnectorCategories ''account-recovery'' [0, 1] exampleStore = Inl TypeError"
proof -
  have h: "''account-recovery'' \<notin> category_id ` set SHOW_GOVERNANCE_CONNECTORS_FOR_SUBORGS"
    by (simp add: SHOW_GOVERNANCE_CONNECTORS_FOR_SUBORGS_def)
  from unknown_category_fails [OF h, of "[0, 1]" exampleStore] h show ?thesis by blast
qed


theorem resolve_label_hint_witness:
  "i18n_exists exampleI18n
     (fieldLabelKey exampleCamelCase ''account-recovery'' ''EmailVerification.Enable'')
   \<and> resolveFieldLabel exampleCamelCase exampleI18n ''account-recovery''
        ''EmailVerification.Enable'' ''Enable'' = ''Enable email verification''
   \<and> \<not> i18n_exists exampleI18n
        (fieldHintKey exampleCamelCase ''account-recovery'' ''EmailVerification.Enable'')
   \<and> resolveFieldHint exampleCamelCase exampleI18n ''account-recovery''
        ''EmailVerification.Enable'' ''Enable'' = ''Enable''"
proof -
  have a: "i18n_exists exampleI18n
     (fieldLabelKey exampleCamelCase ''account-recovery'' ''EmailVerification.Enable'')"
    by (simp add: exampleI18n_def fieldLabelKey_def exampleCamelCase_def)
  have b: "\<not> i18n_exists exampleI18n
        (fieldHintKey exampleCamelCase ''account-recovery'' ''EmailVerification.Enable'')"
    by (simp add: exampleI18n_def fieldHintKey_def exampleCamelCase_def)
  have t: "i18n_t exampleI18n k = ''Enable email verification''" for k
    by (simp add: exampleI18n_def)
  from resolve_label_hint [of exampleCamelCase "''account-recovery''"
      "''EmailVerification.Enable''" exampleI18n "''Enable''" "''Enable''"] a b t
  show ?thesis by simp
qed

end
